theory Spec2Isabelle
  imports Complex_Main "HOL-Library.Sublist"
begin

section \<open>Strings, numbers and errors of the Python runtime\<close>

text \<open>
  The program is a single Python module, \<^verbatim>\<open>app.py\<close>. A Python string is a sequence of
  Unicode code points, so a string is modelled as a list of code points; \<open>ustr\<close> turns
  an ASCII literal into such a list. The rupee sign U+20B9 followed by a blank is the
  prefix of every formatted amount.

  The character tables of the interpreter (lower-casing, white space, the digit
  property tested by \<^verbatim>\<open>str.isdigit\<close> and the decimal value used by \<^verbatim>\<open>int\<close>) are a
  parameter of type \<open>unicode\<close>. The instance \<open>latin1\<close> gives their values on the code
  points below 256 and is used to evaluate inputs made of such code points only.

  Numbers: a Python \<^verbatim>\<open>int\<close> is unbounded (\<open>int\<close>). A binary64 value is either finite or
  one of the two infinities or NaN; rounding, the range of finite values and the sign of
  zero are not modelled, so a finite float is a real number. Python \<^verbatim>\<open>float\<close> and
  \<^verbatim>\<open>numpy.float64\<close> are kept apart because they differ on division by zero.
  The interpreter's optional limit on the number of digits of an int/str conversion is
  not modelled.
\<close>

type_synonym ustring = "nat list"

definition ustr :: "string \<Rightarrow> ustring" where
  "ustr s = map of_char s"

definition rupee :: ustring where
  "rupee = [8377, 32]"

record unicode =
  lower :: "ustring \<Rightarrow> ustring"
  is_space :: "nat \<Rightarrow> bool"
  is_digit :: "nat \<Rightarrow> bool"
  decimal :: "nat \<Rightarrow> nat option"

definition latin1_lower :: "nat \<Rightarrow> nat" where
  "latin1_lower c =
     (if (65 \<le> c \<and> c \<le> 90) \<or> (192 \<le> c \<and> c \<le> 222 \<and> c \<noteq> 215) then c + 32 else c)"

text \<open>
  Below 256 the white space characters are U+0009..U+000D, U+001C..U+0020, U+0085 and
  U+00A0; the characters with the digit property are the ten ASCII digits and the
  superscripts U+00B2, U+00B3 and U+00B9, of which only the ASCII digits have a decimal
  value.
\<close>

definition latin1 :: unicode where
  "latin1 = \<lparr>
     lower = map latin1_lower,
     is_space = (\<lambda>c. (9 \<le> c \<and> c \<le> 13) \<or> (28 \<le> c \<and> c \<le> 32) \<or> c = 133 \<or> c = 160),
     is_digit = (\<lambda>c. (48 \<le> c \<and> c \<le> 57) \<or> c = 178 \<or> c = 179 \<or> c = 185),
     decimal = (\<lambda>c. if 48 \<le> c \<and> c \<le> 57 then Some (c - 48) else None) \<rparr>"

datatype py_error = ValueError | TypeError | OverflowError | ZeroDivisionError

datatype fval = Fin real | PInf | NInf | NaN

datatype pynum = PyInt int | PyFloat fval | NpFloat fval

datatype pyval = PyNone | PyNum pynum | PyStr ustring

subsection \<open>Conversions between integers and strings\<close>

text \<open>\<^verbatim>\<open>str(n)\<close> for an int: the decimal digits, after a minus sign when negative.\<close>

fun digits_nat :: "nat \<Rightarrow> ustring" where
  "digits_nat n = (if n < 10 then [48 + n] else digits_nat (n div 10) @ [48 + n mod 10])"

declare digits_nat.simps [simp del]

definition py_str_int :: "int \<Rightarrow> ustring" where
  "py_str_int i = (if i < 0 then 45 # digits_nat (nat (- i)) else digits_nat (nat i))"

text \<open>
  \<^verbatim>\<open>int(s)\<close> for a string: white space is stripped at both ends, one sign may come first,
  and the rest is a nonempty run of decimal digits in which single underscores may
  separate digits. Anything else raises \<^verbatim>\<open>ValueError\<close>.
\<close>

definition py_strip :: "unicode \<Rightarrow> ustring \<Rightarrow> ustring" where
  "py_strip u s = rev (dropWhile (is_space u) (rev (dropWhile (is_space u) s)))"

fun split_on :: "nat \<Rightarrow> ustring \<Rightarrow> ustring \<Rightarrow> ustring list" where
  "split_on d cur [] = [cur]"
| "split_on d cur (c # cs) =
     (if c = d then cur # split_on d [] cs else split_on d (cur @ [c]) cs)"

definition decimal_value :: "unicode \<Rightarrow> ustring \<Rightarrow> nat option" where
  "decimal_value u s =
     (if list_all (\<lambda>c. decimal u c \<noteq> None) s
      then Some (foldl (\<lambda>a c. 10 * a + the (decimal u c)) 0 s) else None)"

definition parse_digits :: "unicode \<Rightarrow> ustring \<Rightarrow> py_error + nat" where
  "parse_digits u s =
     (let groups = split_on 95 [] s in
      if list_all (\<lambda>g. g \<noteq> []) groups
      then (case decimal_value u (concat groups) of
              None \<Rightarrow> Inl ValueError
            | Some n \<Rightarrow> Inr n)
      else Inl ValueError)"

definition py_int_str :: "unicode \<Rightarrow> ustring \<Rightarrow> py_error + int" where
  "py_int_str u s =
     (case py_strip u s of
        [] \<Rightarrow> Inl ValueError
      | c # cs \<Rightarrow>
          if c = 45 then map_sum id (\<lambda>n. - int n) (parse_digits u cs)
          else if c = 43 then map_sum id int (parse_digits u cs)
          else map_sum id int (parse_digits u (c # cs)))"

text \<open>
  \<^verbatim>\<open>int(x)\<close> for a float truncates towards zero; it raises \<^verbatim>\<open>OverflowError\<close> on an
  infinity and \<^verbatim>\<open>ValueError\<close> on NaN. \<^verbatim>\<open>int(None)\<close> raises \<^verbatim>\<open>TypeError\<close>.
\<close>

definition float_to_int :: "fval \<Rightarrow> py_error + int" where
  "float_to_int x =
     (case x of
        Fin r \<Rightarrow> Inr (if 0 \<le> r then \<lfloor>r\<rfloor> else \<lceil>r\<rceil>)
      | PInf \<Rightarrow> Inl OverflowError
      | NInf \<Rightarrow> Inl OverflowError
      | NaN \<Rightarrow> Inl ValueError)"

fun py_int :: "unicode \<Rightarrow> pyval \<Rightarrow> py_error + int" where
  "py_int u PyNone = Inl TypeError"
| "py_int u (PyNum (PyInt i)) = Inr i"
| "py_int u (PyNum (PyFloat x)) = float_to_int x"
| "py_int u (PyNum (NpFloat x)) = float_to_int x"
| "py_int u (PyStr s) = py_int_str u s"

subsection \<open>Arithmetic\<close>

text \<open>
  Subtraction, multiplication and division of binary64 values with the IEEE special
  cases. \<open>fdiv\<close> is the division that never raises (numpy's): a nonzero finite value
  over zero is an infinity, zero over zero is NaN.
\<close>

fun fneg :: "fval \<Rightarrow> fval" where
  "fneg (Fin a) = Fin (- a)"
| "fneg PInf = NInf"
| "fneg NInf = PInf"
| "fneg NaN = NaN"

fun fadd :: "fval \<Rightarrow> fval \<Rightarrow> fval" where
  "fadd NaN y = NaN"
| "fadd x NaN = NaN"
| "fadd (Fin a) (Fin b) = Fin (a + b)"
| "fadd (Fin a) y = y"
| "fadd x (Fin b) = x"
| "fadd PInf PInf = PInf"
| "fadd NInf NInf = NInf"
| "fadd PInf NInf = NaN"
| "fadd NInf PInf = NaN"

definition fsub :: "fval \<Rightarrow> fval \<Rightarrow> fval" where
  "fsub x y = fadd x (fneg y)"

definition inf_of_sign :: "bool \<Rightarrow> fval" where
  "inf_of_sign positive = (if positive then PInf else NInf)"

fun fsign :: "fval \<Rightarrow> int" where
  "fsign (Fin a) = (if a > 0 then 1 else if a < 0 then - 1 else 0)"
| "fsign PInf = 1"
| "fsign NInf = - 1"
| "fsign NaN = 0"

fun fmul :: "fval \<Rightarrow> fval \<Rightarrow> fval" where
  "fmul NaN y = NaN"
| "fmul x NaN = NaN"
| "fmul (Fin a) (Fin b) = Fin (a * b)"
| "fmul x y = (if fsign x * fsign y = 0 then NaN else inf_of_sign (fsign x * fsign y > 0))"

fun fdiv :: "fval \<Rightarrow> fval \<Rightarrow> fval" where
  "fdiv NaN y = NaN"
| "fdiv x NaN = NaN"
| "fdiv (Fin a) (Fin b) =
     (if b \<noteq> 0 then Fin (a / b) else if a = 0 then NaN else inf_of_sign (a > 0))"
| "fdiv (Fin a) y = Fin 0"
| "fdiv x (Fin b) = inf_of_sign ((fsign x > 0) = (b \<ge> 0))"
| "fdiv x y = NaN"

text \<open>
  Mixed operands: an int is converted to a float, and the result is a
  \<^verbatim>\<open>numpy.float64\<close> as soon as one operand is. True division raises
  \<^verbatim>\<open>ZeroDivisionError\<close> on a zero divisor when both operands are plain Python numbers;
  with a \<^verbatim>\<open>numpy.float64\<close> operand it returns an infinity or NaN (numpy only
  prints a warning).
\<close>

fun to_float :: "pynum \<Rightarrow> fval" where
  "to_float (PyInt i) = Fin (of_int i)"
| "to_float (PyFloat x) = x"
| "to_float (NpFloat x) = x"

fun is_np :: "pynum \<Rightarrow> bool" where
  "is_np (NpFloat x) = True"
| "is_np x = False"

definition float_result :: "pynum \<Rightarrow> pynum \<Rightarrow> fval \<Rightarrow> pynum" where
  "float_result a b x = (if is_np a \<or> is_np b then NpFloat x else PyFloat x)"

fun py_sub :: "pynum \<Rightarrow> pynum \<Rightarrow> pynum" where
  "py_sub (PyInt a) (PyInt b) = PyInt (a - b)"
| "py_sub a b = float_result a b (fsub (to_float a) (to_float b))"

fun py_mul :: "pynum \<Rightarrow> pynum \<Rightarrow> pynum" where
  "py_mul (PyInt a) (PyInt b) = PyInt (a * b)"
| "py_mul a b = float_result a b (fmul (to_float a) (to_float b))"

definition py_truediv :: "pynum \<Rightarrow> pynum \<Rightarrow> py_error + pynum" where
  "py_truediv a b =
     (if is_np a \<or> is_np b then Inr (NpFloat (fdiv (to_float a) (to_float b)))
      else if to_float b = Fin 0 then Inl ZeroDivisionError
      else Inr (PyFloat (fdiv (to_float a) (to_float b))))"

section \<open>Number formatting\<close>

text \<open>
  The \<^verbatim>\<open>while\<close> loop of \<^verbatim>\<open>format_currency\<close>: as long as more than two characters remain,
  the last two are put in front of \<^verbatim>\<open>parts\<close> and removed from \<^verbatim>\<open>rest\<close>.
\<close>

function peel_pairs :: "ustring \<Rightarrow> ustring list \<Rightarrow> ustring \<times> ustring list" where
  "peel_pairs rest parts =
     (if length rest > 2
      then peel_pairs (take (length rest - 2) rest) (drop (length rest - 2) rest # parts)
      else (rest, parts))"
  by pat_completeness auto
termination
  by (relation "measure (\<lambda>(rest, parts). length rest)") auto

declare peel_pairs.simps [simp del]

text \<open>\<^verbatim>\<open>sep.join(parts)\<close>.\<close>

fun join :: "ustring \<Rightarrow> ustring list \<Rightarrow> ustring" where
  "join sep [] = []"
| "join sep [p] = p"
| "join sep (p # q # ps) = p @ sep @ join sep (q # ps)"

text \<open>The body of \<^verbatim>\<open>format_currency\<close> after the coercion, on the int \<^verbatim>\<open>val\<close>.\<close>

definition format_int :: "int \<Rightarrow> ustring" where
  "format_int val =
     (let s = py_str_int val in
      if length s \<le> 3 then rupee @ s
      else
        let last3 = drop (length s - 3) s;
            rest = take (length s - 3) s;
            (rest', parts) = peel_pairs rest [];
            parts' = (if rest' \<noteq> [] then rest' # parts else parts);
            formatted = join [44] parts' @ [44] @ last3
        in rupee @ formatted)"

text \<open>
  \<^verbatim>\<open>format_currency\<close>: the coercion \<^verbatim>\<open>int(val)\<close> sits in a \<^verbatim>\<open>try\<close> whose bare
  \<^verbatim>\<open>except\<close> returns the text for zero.
\<close>

definition format_currency :: "unicode \<Rightarrow> pyval \<Rightarrow> ustring" where
  "format_currency u val =
     (case py_int u val of
        Inl e \<Rightarrow> rupee @ [48]
      | Inr v \<Rightarrow> format_int v)"

section \<open>The fitted model and the tool functions\<close>

text \<open>
  The regression is fitted at start-up on a spreadsheet that is not part of the
  sources, so its intercept and its three coefficients are parameters. A prediction is
  the linear form at the three inputs, returned as a \<^verbatim>\<open>numpy.float64\<close>. The callers
  pass ints.
\<close>

record linear_model =
  intercept :: real
  coef_marketing :: real
  coef_store :: real
  coef_online :: real

definition forecast_tool :: "linear_model \<Rightarrow> int \<Rightarrow> int \<Rightarrow> int \<Rightarrow> pynum" where
  "forecast_tool mdl marketing store online =
     NpFloat (Fin (intercept mdl + coef_marketing mdl * of_int marketing
                   + coef_store mdl * of_int store + coef_online mdl * of_int online))"

definition roi_tool :: "pynum \<Rightarrow> pynum \<Rightarrow> py_error + pynum" where
  "roi_tool revenue marketing = py_truediv (py_sub revenue marketing) marketing"

definition profit_tool :: "pynum \<Rightarrow> pynum \<Rightarrow> pynum \<Rightarrow> pynum" where
  "profit_tool revenue store online = py_sub (py_sub revenue store) online"

definition margin_tool :: "pynum \<Rightarrow> pynum \<Rightarrow> py_error + pynum" where
  "margin_tool profit revenue =
     (case py_truediv profit revenue of
        Inl e \<Rightarrow> Inl e
      | Inr q \<Rightarrow> Inr (py_mul q (PyInt 100)))"

definition scenario_tool :: "linear_model \<Rightarrow> int \<Rightarrow> int \<Rightarrow> pynum \<times> pynum" where
  "scenario_tool mdl base_marketing delta =
     (let base = forecast_tool mdl base_marketing 200000 100000;
          new = forecast_tool mdl (base_marketing + delta) 200000 100000
      in (base, new))"

text \<open>The uplift as both callers of \<^verbatim>\<open>scenario_tool\<close> compute it: \<^verbatim>\<open>new - base\<close>.\<close>

definition uplift :: "pynum \<times> pynum \<Rightarrow> pynum" where
  "uplift r = (case r of (base, new) \<Rightarrow> py_sub new base)"

section \<open>The agent chat\<close>

text \<open>
  \<^verbatim>\<open>text.split()\<close> cuts at runs of white space and yields no empty token;
  \<^verbatim>\<open>s.isdigit()\<close> holds when s is nonempty and all its characters have the digit
  property. \<^verbatim>\<open>extract_number\<close> converts every token that passes \<^verbatim>\<open>isdigit\<close>, in
  order, so the first conversion that raises ends the call.
\<close>

fun split_ws :: "(nat \<Rightarrow> bool) \<Rightarrow> ustring \<Rightarrow> ustring \<Rightarrow> ustring list" where
  "split_ws sp cur [] = (if cur = [] then [] else [cur])"
| "split_ws sp cur (c # cs) =
     (if sp c then (if cur = [] then split_ws sp [] cs else cur # split_ws sp [] cs)
      else split_ws sp (cur @ [c]) cs)"

definition py_split :: "unicode \<Rightarrow> ustring \<Rightarrow> ustring list" where
  "py_split u s = split_ws (is_space u) [] s"

definition py_isdigit :: "unicode \<Rightarrow> ustring \<Rightarrow> bool" where
  "py_isdigit u s = (s \<noteq> [] \<and> list_all (is_digit u) s)"

fun int_each :: "unicode \<Rightarrow> ustring list \<Rightarrow> py_error + int list" where
  "int_each u [] = Inr []"
| "int_each u (s # ss) =
     (case py_int_str u s of
        Inl e \<Rightarrow> Inl e
      | Inr n \<Rightarrow> (case int_each u ss of Inl e \<Rightarrow> Inl e | Inr ns \<Rightarrow> Inr (n # ns)))"

definition extract_number :: "unicode \<Rightarrow> ustring \<Rightarrow> py_error + int option" where
  "extract_number u text =
     (case int_each u (filter (py_isdigit u) (py_split u text)) of
        Inl e \<Rightarrow> Inl e
      | Inr nums \<Rightarrow> Inr (case nums of [] \<Rightarrow> None | n # ns \<Rightarrow> Some n))"

text \<open>\<^verbatim>\<open>sub in q\<close> on strings.\<close>

fun contains :: "ustring \<Rightarrow> ustring \<Rightarrow> bool" where
  "contains sub [] = (sub = [])"
| "contains sub (c # cs) = (prefix sub (c # cs) \<or> contains sub cs)"

text \<open>\<^verbatim>\<open>num if num else d\<close>: \<^verbatim>\<open>None\<close> and 0 are both false.\<close>

definition num_or :: "int option \<Rightarrow> int \<Rightarrow> int" where
  "num_or num d = (case num of None \<Rightarrow> d | Some n \<Rightarrow> if n \<noteq> 0 then n else d)"

text \<open>
  A response is the text written to the page. Its pieces are literal text, except
  that the text of \<^verbatim>\<open>round(roi, 2)\<close> is kept as the number it prints, since the
  conversion of a float to text is not modelled. Each branch of the chain is tagged
  with the intent it serves.
\<close>

datatype piece = Str ustring | Round2 pynum

datatype intent = Forecast | ROI | Profit | Scenario | Unknown

definition help_text :: ustring where
  "help_text =
     ustr ''I can help with:'' @ [10] @
     ustr ''- Revenue forecast'' @ [10] @
     ustr ''- ROI'' @ [10] @
     ustr ''- Profit'' @ [10] @
     ustr ''- Marketing scenarios'' @ [10] @
     ustr ''Try: '' @ [39] @ ustr ''Forecast revenue for 250000 marketing'' @ [39]"

text \<open>The \<^verbatim>\<open>if\<close>/\<^verbatim>\<open>elif\<close> chain of the chat tab, on the lower-cased query and \<^verbatim>\<open>num\<close>.\<close>

definition dispatch ::
  "linear_model \<Rightarrow> unicode \<Rightarrow> ustring \<Rightarrow> int option \<Rightarrow> py_error + intent \<times> piece list" where
  "dispatch mdl u q num =
     (if contains (ustr ''forecast'') q then
        let val = num_or num 200000;
            revenue = forecast_tool mdl val 200000 100000
        in Inr (Forecast,
                [Str (ustr ''Projected revenue for '' @ format_currency u (PyNum (PyInt val))
                      @ ustr '' marketing is '' @ format_currency u (PyNum revenue)
                      @ ustr ''.'')])
      else if contains (ustr ''roi'') q then
        let val = num_or num 200000;
            revenue = forecast_tool mdl val 200000 100000
        in (case roi_tool revenue (PyInt val) of
              Inl e \<Rightarrow> Inl e
            | Inr roi \<Rightarrow>
                Inr (ROI,
                     [Str (ustr ''ROI for spend '' @ format_currency u (PyNum (PyInt val))
                           @ ustr '' is ''),
                      Round2 roi, Str (ustr ''.'')]))
      else if contains (ustr ''profit'') q then
        let revenue = forecast_tool mdl 200000 200000 100000
        in Inr (Profit,
                [Str (ustr ''Estimated profit: ''
                      @ format_currency u
                          (PyNum (profit_tool revenue (PyInt 200000) (PyInt 100000)))
                      @ ustr ''.'')])
      else if contains (ustr ''increase'') q \<or> contains (ustr ''what if'') q then
        let delta = num_or num 50000;
            r = scenario_tool mdl 200000 delta
        in Inr (Scenario,
                [Str (ustr ''Uplift for +'' @ format_currency u (PyNum (PyInt delta))
                      @ ustr '' is '' @ format_currency u (PyNum (uplift r))
                      @ ustr ''.'')])
      else Inr (Unknown, [Str help_text]))"

text \<open>The handler of the Submit button: lower-case, extract, dispatch.\<close>

definition resolve_intent ::
  "linear_model \<Rightarrow> unicode \<Rightarrow> ustring \<Rightarrow> py_error + intent \<times> piece list" where
  "resolve_intent mdl u query =
     (let q = lower u query in
      case extract_number u q of
        Inl e \<Rightarrow> Inl e
      | Inr num \<Rightarrow> dispatch mdl u q num)"

section \<open>Notions used to state the properties\<close>

text \<open>
  The lengths of the comma-separated groups of a formatted amount, after the two
  characters of the rupee prefix.
\<close>

definition group_lengths :: "ustring \<Rightarrow> nat list" where
  "group_lengths s = map length (split_on 44 [] (drop 2 s))"

text \<open>A number that compares equal to zero, and a float that is an infinity or NaN.\<close>

definition is_zero :: "pynum \<Rightarrow> bool" where
  "is_zero x = (to_float x = Fin 0)"

definition non_finite :: "fval \<Rightarrow> bool" where
  "non_finite x = (case x of Fin r \<Rightarrow> False | _ \<Rightarrow> True)"

text \<open>A model with simple coefficients, to evaluate the functions on concrete inputs.\<close>

definition sample_model :: linear_model where
  "sample_model =
     \<lparr>intercept = 1000, coef_marketing = 2, coef_store = 1, coef_online = 1 / 2\<rparr>"

text \<open>The intent of an answer, when there is one.\<close>

definition intent_of :: "py_error + intent \<times> piece list \<Rightarrow> intent option" where
  "intent_of r = (case r of Inl e \<Rightarrow> None | Inr (i, ps) \<Rightarrow> Some i)"

text \<open>
  The digit characters of a text, the number they denote in base ten, and the leading
  group of a formatted amount: what stands between the rupee prefix and the first comma.
\<close>

definition digit_chars :: "ustring \<Rightarrow> ustring" where
  "digit_chars s = filter (\<lambda>c. 48 \<le> c \<and> c \<le> 57) s"

definition parse_decimal :: "ustring \<Rightarrow> nat" where
  "parse_decimal s = foldl (\<lambda>a c. 10 * a + (c - 48)) 0 s"

definition leading_group :: "ustring \<Rightarrow> ustring" where
  "leading_group s = takeWhile (\<lambda>c. c \<noteq> 44) (drop 2 s)"

section \<open>Formatting: the grouping boundaries\<close>

lemmas fmt_eval = format_currency_def format_int_def py_str_int_def digits_nat.simps
  peel_pairs.simps rupee_def ustr_def

text \<open>
  Against C3 as stated: the text for 0 is not the bare string 0, since every result
  starts with the rupee prefix, and the groups of 1000 have lengths 1 and 3, not 2 and 3.
\<close>

theorem format_currency_boundaries_counterexample:
  "format_currency latin1 (PyNum (PyInt 0)) \<noteq> ustr ''0''
   \<and> group_lengths (format_currency latin1 (PyNum (PyInt 1000))) \<noteq> [2, 3]"
  by (simp add: fmt_eval group_lengths_def)

text \<open>
  C3, amended: after the rupee prefix, 0 and 999 are printed without grouping; 1000 is
  printed as one leading group of one digit joined to a trailing group of three digits;
  100000 is printed as two leading groups (of one and two digits) joined to the trailing
  group of three digits.
\<close>

theorem format_currency_boundaries:
  "format_currency u (PyNum (PyInt 0)) = rupee @ ustr ''0''
   \<and> format_currency u (PyNum (PyInt 999)) = rupee @ ustr ''999''
   \<and> format_currency u (PyNum (PyInt 1000)) = rupee @ ustr ''1,000''
   \<and> group_lengths (format_currency u (PyNum (PyInt 1000))) = [1, 3]
   \<and> format_currency u (PyNum (PyInt 100000)) = rupee @ ustr ''1,00,000''
   \<and> group_lengths (format_currency u (PyNum (PyInt 100000))) = [1, 2, 3]"
  by (simp add: fmt_eval group_lengths_def)

section \<open>Metrics and scenarios\<close>

text \<open>
  C7: the profit is the revenue minus the store cost minus the online cost, subtracted
  in this order; on ints the result is the exact integer difference, and on a finite
  predicted revenue with int costs it is the difference of the values.
\<close>

theorem profit_tool_formula:
  "profit_tool revenue store online = py_sub (py_sub revenue store) online
   \<and> profit_tool (PyInt r) (PyInt s) (PyInt c) = PyInt (r - s - c)
   \<and> profit_tool (NpFloat (Fin x)) (PyInt s) (PyInt c)
       = NpFloat (Fin (x - of_int s - of_int c))"
  by (simp add: profit_tool_def float_result_def fsub_def)

text \<open>
  C6: for every base marketing m and every delta d, of either sign, the scenario is
  the pair of the predictions at m and at m + d, both at store cost 200000 and online
  cost 100000; the uplift is the second minus the first; a zero delta gives a zero
  uplift.
\<close>

theorem scenario_tool_uplift:
  "scenario_tool mdl m d =
     (forecast_tool mdl m 200000 100000, forecast_tool mdl (m + d) 200000 100000)
   \<and> uplift (scenario_tool mdl m d) =
       py_sub (snd (scenario_tool mdl m d)) (fst (scenario_tool mdl m d))
   \<and> uplift (scenario_tool mdl m 0) = NpFloat (Fin 0)"
  by (simp add: scenario_tool_def uplift_def forecast_tool_def float_result_def fsub_def)

text \<open>With a linear model the uplift is the marketing coefficient times the delta.\<close>

lemma uplift_linear:
  "uplift (scenario_tool mdl m d) = NpFloat (Fin (coef_marketing mdl * of_int d))"
  by (simp add: scenario_tool_def uplift_def forecast_tool_def float_result_def fsub_def
      algebra_simps)

section \<open>Division by zero in the ratio metrics\<close>

lemma fdiv_zero_non_finite: "non_finite (fdiv x (Fin 0))"
  by (cases x) (simp_all add: non_finite_def inf_of_sign_def)

lemma fmul_100_non_finite: "non_finite x \<Longrightarrow> non_finite (fmul x (Fin 100))"
  by (cases x) (simp_all add: non_finite_def inf_of_sign_def)

lemma py_truediv_zero:
  "is_zero z \<Longrightarrow> py_truediv a z =
     (if is_np a \<or> is_np z then Inr (NpFloat (fdiv (to_float a) (Fin 0)))
      else Inl ZeroDivisionError)"
  by (simp add: py_truediv_def is_zero_def)

lemma is_np_py_sub: "is_np (py_sub a b) = (is_np a \<or> is_np b)"
  by (cases a; cases b) (simp_all add: float_result_def)

text \<open>
  Against C1 as stated: with a predicted revenue, which is a \<^verbatim>\<open>numpy.float64\<close>, the
  return on a zero marketing spend is plus infinity and the margin on a zero revenue is
  minus infinity; both are returned as values, nothing is raised.
\<close>

theorem zero_division_counterexample:
  "roi_tool (NpFloat (Fin 651000)) (PyInt 0) = Inr (NpFloat PInf)
   \<and> margin_tool (NpFloat (Fin (- 300000))) (NpFloat (Fin 0)) = Inr (NpFloat NInf)"
  by (simp add: roi_tool_def margin_tool_def py_truediv_def float_result_def fsub_def
      inf_of_sign_def)

text \<open>
  C1, amended: with a zero divisor z, \<^verbatim>\<open>roi_tool(r, z)\<close> and \<^verbatim>\<open>margin_tool(p, z)\<close> raise
  \<^verbatim>\<open>ZeroDivisionError\<close> when both operands are plain Python numbers; when an
  operand is a \<^verbatim>\<open>numpy.float64\<close> they return a \<^verbatim>\<open>numpy.float64\<close> that is an infinity
  or NaN.
\<close>

theorem zero_division_outcome:
  assumes "is_zero z"
  shows "(\<not> is_np r \<and> \<not> is_np z \<longrightarrow> roi_tool r z = Inl ZeroDivisionError)
       \<and> (\<not> is_np p \<and> \<not> is_np z \<longrightarrow> margin_tool p z = Inl ZeroDivisionError)
       \<and> (is_np r \<or> is_np z \<longrightarrow> (\<exists>x. roi_tool r z = Inr (NpFloat x) \<and> non_finite x))
       \<and> (is_np p \<or> is_np z \<longrightarrow> (\<exists>x. margin_tool p z = Inr (NpFloat x) \<and> non_finite x))"
proof -
  have roi: "roi_tool r z =
      (if is_np r \<or> is_np z then Inr (NpFloat (fdiv (to_float (py_sub r z)) (Fin 0)))
       else Inl ZeroDivisionError)"
    using assms by (simp add: roi_tool_def py_truediv_zero is_np_py_sub)
  have margin: "margin_tool p z =
      (if is_np p \<or> is_np z
       then Inr (NpFloat (fmul (fdiv (to_float p) (Fin 0)) (Fin 100)))
       else Inl ZeroDivisionError)"
    using assms by (simp add: margin_tool_def py_truediv_zero float_result_def)
  show ?thesis
    by (simp add: roi margin fdiv_zero_non_finite fmul_100_non_finite)
qed

theorem zero_division_outcome_witness:
  "is_zero (PyInt 0)
   \<and> roi_tool (PyInt 5) (PyInt 0) = Inl ZeroDivisionError
   \<and> margin_tool (PyFloat (Fin 5)) (PyInt 0) = Inl ZeroDivisionError
   \<and> (\<exists>x. roi_tool (NpFloat (Fin 651000)) (PyInt 0) = Inr (NpFloat x) \<and> non_finite x)
   \<and> (\<exists>x. margin_tool (NpFloat (Fin 351000)) (PyInt 0) = Inr (NpFloat x) \<and> non_finite x)"
proof -
  have z: "is_zero (PyInt 0)" by (simp add: is_zero_def)
  from zero_division_outcome [OF z, of "PyInt 5" "PyFloat (Fin 5)"]
       zero_division_outcome [OF z, of "NpFloat (Fin 651000)" "NpFloat (Fin 351000)"] z
  show ?thesis by simp
qed

section \<open>Formatting: inputs that are not numbers\<close>

text \<open>
  C9: for every input whose coercion to an int fails, \<^verbatim>\<open>format_currency\<close> does not
  fail and returns the text of the zero amount.
\<close>

theorem format_currency_fallback:
  "py_int u val = Inl e \<Longrightarrow> format_currency u val = rupee @ ustr ''0''"
  by (simp add: format_currency_def ustr_def)

theorem format_currency_fallback_witness:
  "py_int latin1 (PyStr (ustr ''abc'')) = Inl ValueError
   \<and> format_currency latin1 (PyStr (ustr ''abc'')) = rupee @ ustr ''0''
   \<and> py_int latin1 PyNone = Inl TypeError
   \<and> format_currency latin1 PyNone = rupee @ ustr ''0''
   \<and> py_int latin1 (PyNum (NpFloat NaN)) = Inl ValueError
   \<and> format_currency latin1 (PyNum (NpFloat NaN)) = rupee @ ustr ''0''"
proof -
  have a: "py_int latin1 (PyStr (ustr ''abc'')) = Inl ValueError"
    by (simp add: py_int_str_def py_strip_def latin1_def ustr_def parse_digits_def
        decimal_value_def)
  have b: "py_int latin1 PyNone = Inl TypeError" by simp
  have c: "py_int latin1 (PyNum (NpFloat NaN)) = Inl ValueError"
    by (simp add: float_to_int_def)
  from format_currency_fallback [OF a] format_currency_fallback [OF b]
       format_currency_fallback [OF c] a b c
  show ?thesis by simp
qed

section \<open>The dispatch chain\<close>

lemmas chat_eval = resolve_intent_def extract_number_def py_split_def py_isdigit_def
  py_int_str_def py_strip_def parse_digits_def decimal_value_def latin1_def latin1_lower_def

lemma roi_tool_forecast:
  "roi_tool (forecast_tool mdl a b c) (PyInt v) =
     Inr (NpFloat (fdiv (fsub (to_float (forecast_tool mdl a b c)) (Fin (of_int v)))
                        (Fin (of_int v))))"
  by (simp add: roi_tool_def forecast_tool_def py_truediv_def float_result_def)

text \<open>When the extraction returns, the handler is the chain on the lower-cased query.\<close>

lemma resolve_intent_dispatch:
  "extract_number u (lower u query) = Inr num \<Longrightarrow>
   resolve_intent mdl u query = dispatch mdl u (lower u query) num"
  by (simp add: resolve_intent_def)

text \<open>The chain itself never raises: the divisor of the ROI branch is never zero.\<close>

lemma dispatch_returns: "\<exists>r. dispatch mdl u q num = Inr r"
  by (simp add: dispatch_def roi_tool_forecast Let_def)

text \<open>
  C5: the chain is first-match-wins in the order forecast, roi, profit, then increase
  or what if: a query containing forecast is answered by the Forecast branch whatever
  else it contains, and so on down the chain; the Profit branch gives the same answer
  whatever number was extracted; a query matching nothing gets the fixed help message.
  This holds for every lower-cased query and every extracted number.
\<close>

theorem dispatch_priority:
  "(contains (ustr ''forecast'') q \<longrightarrow> intent_of (dispatch mdl u q num) = Some Forecast)
   \<and> (\<not> contains (ustr ''forecast'') q \<and> contains (ustr ''roi'') q
        \<longrightarrow> intent_of (dispatch mdl u q num) = Some ROI)
   \<and> (\<not> contains (ustr ''forecast'') q \<and> \<not> contains (ustr ''roi'') q
        \<and> contains (ustr ''profit'') q
        \<longrightarrow> intent_of (dispatch mdl u q num) = Some Profit
            \<and> dispatch mdl u q num = dispatch mdl u q num')
   \<and> (\<not> contains (ustr ''forecast'') q \<and> \<not> contains (ustr ''roi'') q
        \<and> \<not> contains (ustr ''profit'') q
        \<and> (contains (ustr ''increase'') q \<or> contains (ustr ''what if'') q)
        \<longrightarrow> intent_of (dispatch mdl u q num) = Some Scenario)
   \<and> (\<not> contains (ustr ''forecast'') q \<and> \<not> contains (ustr ''roi'') q
        \<and> \<not> contains (ustr ''profit'') q
        \<and> \<not> contains (ustr ''increase'') q \<and> \<not> contains (ustr ''what if'') q
        \<longrightarrow> dispatch mdl u q num = Inr (Unknown, [Str help_text]))"
  by (simp add: dispatch_def intent_of_def roi_tool_forecast Let_def)

theorem dispatch_priority_witness:
  "intent_of (dispatch sample_model latin1 (ustr ''what if roi and profit increase the forecast'') (Some 7))
     = Some Forecast
   \<and> intent_of (dispatch sample_model latin1 (ustr ''profit and roi'') None) = Some ROI
   \<and> intent_of (dispatch sample_model latin1 (ustr ''what if profit increase 5'') (Some 5)) = Some Profit
   \<and> dispatch sample_model latin1 (ustr ''what if profit increase 5'') (Some 5)
       = dispatch sample_model latin1 (ustr ''what if profit increase 5'') None
   \<and> intent_of (dispatch sample_model latin1 (ustr ''what if'') None) = Some Scenario
   \<and> dispatch sample_model latin1 (ustr ''hello'') None = Inr (Unknown, [Str help_text])"
proof -
  have f: "contains (ustr ''forecast'') (ustr ''what if roi and profit increase the forecast'')"
    by (simp add: ustr_def)
  have r: "\<not> contains (ustr ''forecast'') (ustr ''profit and roi'')
           \<and> contains (ustr ''roi'') (ustr ''profit and roi'')"
    by (simp add: ustr_def)
  have p: "\<not> contains (ustr ''forecast'') (ustr ''what if profit increase 5'')
           \<and> \<not> contains (ustr ''roi'') (ustr ''what if profit increase 5'')
           \<and> contains (ustr ''profit'') (ustr ''what if profit increase 5'')"
    by (simp add: ustr_def)
  have s: "\<not> contains (ustr ''forecast'') (ustr ''what if'')
           \<and> \<not> contains (ustr ''roi'') (ustr ''what if'')
           \<and> \<not> contains (ustr ''profit'') (ustr ''what if'')
           \<and> contains (ustr ''what if'') (ustr ''what if'')"
    by (simp add: ustr_def)
  have n: "\<not> contains (ustr ''forecast'') (ustr ''hello'')
           \<and> \<not> contains (ustr ''roi'') (ustr ''hello'')
           \<and> \<not> contains (ustr ''profit'') (ustr ''hello'')
           \<and> \<not> contains (ustr ''increase'') (ustr ''hello'')
           \<and> \<not> contains (ustr ''what if'') (ustr ''hello'')"
    by (simp add: ustr_def)
  from dispatch_priority [of "ustr ''what if roi and profit increase the forecast''" sample_model latin1 "Some 7"] f
  have 1: "intent_of (dispatch sample_model latin1 (ustr ''what if roi and profit increase the forecast'') (Some 7))
     = Some Forecast" by blast
  from dispatch_priority [of "ustr ''profit and roi''" sample_model latin1 None] r
  have 2: "intent_of (dispatch sample_model latin1 (ustr ''profit and roi'') None) = Some ROI" by blast
  from dispatch_priority [of "ustr ''what if profit increase 5''" sample_model latin1 "Some 5" None] p
  have 3: "intent_of (dispatch sample_model latin1 (ustr ''what if profit increase 5'') (Some 5)) = Some Profit
     \<and> dispatch sample_model latin1 (ustr ''what if profit increase 5'') (Some 5)
       = dispatch sample_model latin1 (ustr ''what if profit increase 5'') None" by blast
  from dispatch_priority [of "ustr ''what if''" sample_model latin1 None] s
  have 4: "intent_of (dispatch sample_model latin1 (ustr ''what if'') None) = Some Scenario" by blast
  from dispatch_priority [of "ustr ''hello''" sample_model latin1 None] n
  have 5: "dispatch sample_model latin1 (ustr ''hello'') None = Inr (Unknown, [Str help_text])" by blast
  from 1 2 3 4 5 show ?thesis by blast
qed

section \<open>The extracted number\<close>

text \<open>
  A nonzero extracted number is the marketing spend of the Forecast and ROI branches,
  and the default 200000 is used when no number was extracted.
\<close>

lemma extracted_number_used:
  "n \<noteq> 0 \<Longrightarrow> contains (ustr ''forecast'') q \<Longrightarrow>
   dispatch mdl u q (Some n) =
     Inr (Forecast,
          [Str (ustr ''Projected revenue for '' @ format_currency u (PyNum (PyInt n))
                @ ustr '' marketing is ''
                @ format_currency u (PyNum (forecast_tool mdl n 200000 100000))
                @ ustr ''.'')])"
  by (simp add: dispatch_def num_or_def)

lemma extracted_number_used_roi:
  "n \<noteq> 0 \<Longrightarrow> \<not> contains (ustr ''forecast'') q \<Longrightarrow> contains (ustr ''roi'') q \<Longrightarrow>
   \<exists>roi. roi_tool (forecast_tool mdl n 200000 100000) (PyInt n) = Inr roi \<and>
     dispatch mdl u q (Some n) =
       Inr (ROI,
            [Str (ustr ''ROI for spend '' @ format_currency u (PyNum (PyInt n))
                  @ ustr '' is ''),
             Round2 roi, Str (ustr ''.'')])"
  by (simp add: dispatch_def num_or_def roi_tool_forecast)

lemma no_number_default:
  "contains (ustr ''forecast'') q \<Longrightarrow>
   dispatch mdl u q None =
     Inr (Forecast,
          [Str (ustr ''Projected revenue for '' @ format_currency u (PyNum (PyInt 200000))
                @ ustr '' marketing is ''
                @ format_currency u (PyNum (forecast_tool mdl 200000 200000 100000))
                @ ustr ''.'')])"
  by (simp add: dispatch_def num_or_def)

text \<open>
  C2 at the query \<^verbatim>\<open>Forecast 0\<close>: the number 0 is found in the text, and the answer
  is the one for the default marketing spend 200000, because \<^verbatim>\<open>num if num else 200000\<close>
  tests the truth value of \<^verbatim>\<open>num\<close> and 0 is false.
\<close>

theorem zero_number_uses_default:
  "extract_number latin1 (lower latin1 (ustr ''Forecast 0'')) = Inr (Some 0)
   \<and> resolve_intent mdl latin1 (ustr ''Forecast 0'') =
       Inr (Forecast,
            [Str (ustr ''Projected revenue for '' @ rupee @ ustr ''2,00,000''
                  @ ustr '' marketing is ''
                  @ format_currency latin1 (PyNum (forecast_tool mdl 200000 200000 100000))
                  @ ustr ''.'')])"
  by (simp add: chat_eval dispatch_def num_or_def fmt_eval)

section \<open>Queries on which the handler raises\<close>

text \<open>
  C4 at the query made of \<^verbatim>\<open>roi\<close>, a blank and the superscript two U+00B2: the token
  passes \<^verbatim>\<open>isdigit\<close>, \<^verbatim>\<open>int\<close> rejects it, and the \<^verbatim>\<open>ValueError\<close> leaves
  \<^verbatim>\<open>extract_number\<close> and the handler.
\<close>

theorem superscript_digit_raises:
  "resolve_intent mdl latin1 (ustr ''roi '' @ [178]) = Inl ValueError"
  by (simp add: chat_eval ustr_def)

section \<open>Formatting: the digits of the amount\<close>

text \<open>
  The loop keeps the characters of \<^verbatim>\<open>rest\<close> in order, and what it leaves as the
  leading group is a prefix of one or two characters of \<^verbatim>\<open>rest\<close>.
\<close>

lemma digits_nat_nonempty: "digits_nat n \<noteq> []"
  by (subst digits_nat.simps) simp

lemma digits_nat_range: "c \<in> set (digits_nat n) \<Longrightarrow> 48 \<le> c \<and> c \<le> 57"
proof (induction n rule: digits_nat.induct)
  case (1 n)
  show ?case
  proof (cases "n < 10")
    case True
    with "1.prems" show ?thesis by (subst (asm) digits_nat.simps) simp
  next
    case False
    with "1.prems" have "c \<in> set (digits_nat (n div 10)) \<or> c = 48 + n mod 10"
      by (subst (asm) digits_nat.simps) auto
    with False "1.IH" show ?thesis by auto
  qed
qed

lemma digit_chars_digits_nat: "digit_chars (digits_nat n) = digits_nat n"
  unfolding digit_chars_def by (rule filter_True) (simp add: digits_nat_range)

lemma parse_decimal_snoc: "parse_decimal (s @ [c]) = 10 * parse_decimal s + (c - 48)"
  by (simp add: parse_decimal_def)

lemma parse_decimal_digits_nat: "parse_decimal (digits_nat n) = n"
proof (induction n rule: digits_nat.induct)
  case (1 n)
  show ?case
  proof (cases "n < 10")
    case True
    then show ?thesis by (subst digits_nat.simps) (simp add: parse_decimal_def)
  next
    case False
    with "1.IH" have "parse_decimal (digits_nat (n div 10)) = n div 10" by simp
    with False show ?thesis
      by (subst digits_nat.simps) (simp add: parse_decimal_snoc)
  qed
qed

lemma peel_pairs_concat:
  "peel_pairs rest parts = (r, ps) \<Longrightarrow> r @ concat ps = rest @ concat parts"
proof (induction rest parts rule: peel_pairs.induct)
  case (1 rest parts)
  show ?case
  proof (cases "length rest > 2")
    case True
    with "1.prems" have
      "peel_pairs (take (length rest - 2) rest) (drop (length rest - 2) rest # parts) = (r, ps)"
      by (subst (asm) peel_pairs.simps) simp
    with True "1.IH" have
      "r @ concat ps = take (length rest - 2) rest @ concat (drop (length rest - 2) rest # parts)"
      by simp
    then show ?thesis by simp
  next
    case False
    with "1.prems" show ?thesis by (subst (asm) peel_pairs.simps) simp
  qed
qed

lemma peel_index:
  "2 < (n::nat) \<Longrightarrow>
   (if n - 2 \<le> 2 then n - 2 else if even (n - 2) then 2 else 1) = (if even n then 2 else 1)"
  by (auto elim: oddE evenE) presburger+

lemma peel_index_le: "2 < (n::nat) \<Longrightarrow> (if even n then 2 else 1) \<le> n - 2"
  by (auto elim: oddE evenE)

lemma peel_pairs_fst:
  "fst (peel_pairs rest parts) =
     take (if length rest \<le> 2 then length rest else if even (length rest) then 2 else 1) rest"
proof (induction rest parts rule: peel_pairs.induct)
  case (1 rest parts)
  show ?case
  proof (cases "length rest > 2")
    case True
    let ?r = "take (length rest - 2) rest"
    let ?k = "if even (length rest) then 2 else 1 :: nat"
    have len: "length ?r = length rest - 2" by simp
    have idx: "(if length ?r \<le> 2 then length ?r else if even (length ?r) then 2 else 1) = ?k"
      unfolding len using True by (rule peel_index)
    have k: "?k \<le> length rest - 2" using True by (rule peel_index_le)
    have "fst (peel_pairs rest parts) = fst (peel_pairs ?r (drop (length rest - 2) rest # parts))"
      using True by (subst peel_pairs.simps) simp
    also have "\<dots> = take (if length ?r \<le> 2 then length ?r else if even (length ?r) then 2 else 1) ?r"
      using True "1.IH" by simp
    also have "\<dots> = take ?k ?r" by (simp only: idx)
    also have "\<dots> = take ?k rest" using k by (simp only: take_take min_absorb1)
    finally show ?thesis using True by simp
  next
    case False
    then show ?thesis by (subst peel_pairs.simps) simp
  qed
qed

lemma filter_join:
  "\<not> P c \<Longrightarrow> filter P (join [c] ps) = filter P (concat ps)"
  by (induction "[c]" ps rule: join.induct) simp_all

lemma join_Cons: "\<exists>t. join sep (r # ps) @ sep @ l = r @ sep @ t"
  by (cases ps) simp_all

lemma format_int_small:
  "length (py_str_int v) \<le> 3 \<Longrightarrow> format_int v = rupee @ py_str_int v"
  by (simp add: format_int_def)

lemma format_int_large:
  assumes "length (py_str_int v) > 3"
  shows "\<exists>r ps. peel_pairs (take (length (py_str_int v) - 3) (py_str_int v)) [] = (r, ps)
           \<and> format_int v =
               rupee @ join [44] (if r \<noteq> [] then r # ps else ps) @ [44]
                 @ drop (length (py_str_int v) - 3) (py_str_int v)"
proof -
  obtain r ps where "peel_pairs (take (length (py_str_int v) - 3) (py_str_int v)) [] = (r, ps)"
    by (cases "peel_pairs (take (length (py_str_int v) - 3) (py_str_int v)) []")
  with assms show ?thesis by (simp add: format_int_def Let_def)
qed

lemma digit_chars_format_int:
  assumes "0 \<le> v"
  shows "digit_chars (format_int v) = digits_nat (nat v)"
proof -
  let ?s = "py_str_int v"
  have s: "?s = digits_nat (nat v)" using assms by (simp add: py_str_int_def)
  have ds: "digit_chars ?s = ?s" by (simp add: s digit_chars_digits_nat)
  show ?thesis
  proof (cases "length ?s \<le> 3")
    case True
    then have "format_int v = rupee @ ?s" by (rule format_int_small)
    then have "digit_chars (format_int v) = digit_chars ?s"
      by (simp add: digit_chars_def rupee_def)
    with ds s show ?thesis by simp
  next
    case False
    then obtain r ps where
      p: "peel_pairs (take (length ?s - 3) ?s) [] = (r, ps)" and
      f: "format_int v = rupee @ join [44] (if r \<noteq> [] then r # ps else ps) @ [44]
            @ drop (length ?s - 3) ?s"
      using format_int_large [of v] by auto
    from peel_pairs_concat [OF p] have c: "r @ concat ps = take (length ?s - 3) ?s" by simp
    have "concat (if r \<noteq> [] then r # ps else ps) = r @ concat ps" by simp
    then have "digit_chars (join [44] (if r \<noteq> [] then r # ps else ps))
                 = digit_chars (take (length ?s - 3) ?s)"
      unfolding digit_chars_def using c by (subst filter_join) simp_all
    then have "digit_chars (format_int v)
                 = digit_chars (take (length ?s - 3) ?s) @ digit_chars (drop (length ?s - 3) ?s)"
      by (simp add: f digit_chars_def rupee_def)
    also have "\<dots> = digit_chars ?s"
      unfolding digit_chars_def by (simp only: filter_append [symmetric] append_take_drop_id)
    finally show ?thesis using ds s by simp
  qed
qed

text \<open>
  C8: for every non-negative integer v, keeping only the digit characters of
  \<^verbatim>\<open>format_currency(v)\<close> and reading them as a decimal number gives v back.
\<close>

theorem format_currency_round_trip:
  "0 \<le> v \<Longrightarrow>
   int (parse_decimal (digit_chars (format_currency u (PyNum (PyInt v))))) = v"
  by (simp add: format_currency_def digit_chars_format_int parse_decimal_digits_nat)

theorem format_currency_round_trip_witness:
  "(0::int) \<le> 1234567
   \<and> format_currency latin1 (PyNum (PyInt 1234567)) = rupee @ ustr ''12,34,567''
   \<and> int (parse_decimal (digit_chars (format_currency latin1 (PyNum (PyInt 1234567)))))
       = 1234567"
proof -
  have h: "(0::int) \<le> 1234567" by simp
  have e: "format_currency latin1 (PyNum (PyInt 1234567)) = rupee @ ustr ''12,34,567''"
    by (simp add: fmt_eval)
  from format_currency_round_trip [OF h, of latin1] h e show ?thesis by simp
qed


section \<open>Formatting: negative amounts\<close>

text \<open>
  The loop never looks at the characters, so the minus sign of a negative amount is
  grouped like a digit: with three or more digits, the leading group is the sign alone
  when the number of digits is odd and the sign with the first digit when it is even.
\<close>

lemma format_int_negative_large:
  assumes "v < 0" and "3 \<le> length (digits_nat (nat (- v)))"
  shows "\<exists>t. format_int v =
           rupee @ take (if even (length (digits_nat (nat (- v)))) then 2 else 1)
                     (45 # digits_nat (nat (- v))) @ 44 # t"
proof -
  let ?ds = "digits_nat (nat (- v))"
  let ?s = "py_str_int v"
  let ?rest = "take (length ?s - 3) ?s"
  let ?k = "if even (length ?ds) then 2 else 1 :: nat"
  have s: "?s = 45 # ?ds" using assms(1) by (simp add: py_str_int_def)
  have big: "2 < length ?ds" using assms(2) by simp
  have len: "length ?rest = length ?ds - 2" using assms(2) by (simp add: s)
  from assms(2) have "length ?s > 3" by (simp add: s)
  then obtain r ps where
    p: "peel_pairs ?rest [] = (r, ps)" and
    f: "format_int v = rupee @ join [44] (if r \<noteq> [] then r # ps else ps) @ [44]
          @ drop (length ?s - 3) ?s"
    using format_int_large [of v] by auto
  have "r = fst (peel_pairs ?rest [])" by (simp add: p)
  also have "\<dots> = take (if length ?rest \<le> 2 then length ?rest
                          else if even (length ?rest) then 2 else 1) ?rest"
    by (rule peel_pairs_fst)
  also have "\<dots> = take ?k ?rest"
    unfolding len using big by (simp only: peel_index)
  also have "\<dots> = take ?k ?s"
  proof -
    have "?k \<le> length ?s - 3" using peel_index_le [OF big] by (simp add: s)
    then show ?thesis by (simp only: take_take min_absorb1)
  qed
  finally have r: "r = take ?k (45 # ?ds)" by (simp only: s)
  then have "r \<noteq> []" by simp
  then have "format_int v = rupee @ join [44] (r # ps) @ [44] @ drop (length ?s - 3) ?s"
    by (simp add: f)
  moreover obtain t where "join [44] (r # ps) @ [44] @ drop (length ?s - 3) ?s = r @ [44] @ t"
    using join_Cons [of "[44]" r ps] by blast
  ultimately have "format_int v = rupee @ r @ 44 # t" by simp
  with r show ?thesis by blast
qed

lemma hd_digits_nat_not_comma: "hd (digits_nat n) \<noteq> 44"
  using digits_nat_range [of "hd (digits_nat n)" n] digits_nat_nonempty [of n]
  by (auto dest: hd_in_set)

text \<open>
  Against C10 as stated: 123456 has more than five digits, and in the text of -123456
  the sign is attached to the leading group, it is not a group of its own.
\<close>

theorem negative_sign_counterexample:
  "5 \<le> length (digits_nat (nat (- (- 123456))))
   \<and> format_currency latin1 (PyNum (PyInt (- 123456))) = rupee @ ustr ''-1,23,456''
   \<and> leading_group (format_currency latin1 (PyNum (PyInt (- 123456)))) \<noteq> ustr ''-''"
  by (simp add: fmt_eval leading_group_def)

text \<open>
  C10, amended: for every negative integer v the minus sign comes right after the
  rupee prefix, inside the grouped text. With one or two digits nothing is grouped.
  With an even number of digits, four or more, the sign is attached to the leading
  group, which is the sign and the first digit (-1234 gives -1,234). With an odd number
  of digits, three or more, the sign is a leading group of its own, followed by a
  separator (-12345 gives -,12,345).
\<close>

theorem negative_sign_placement:
  assumes "v < 0"
  shows "take 3 (format_currency u (PyNum (PyInt v))) = rupee @ ustr ''-''
       \<and> (length (digits_nat (nat (- v))) \<le> 2 \<longrightarrow>
            format_currency u (PyNum (PyInt v)) = rupee @ ustr ''-'' @ digits_nat (nat (- v)))
       \<and> (3 \<le> length (digits_nat (nat (- v))) \<and> odd (length (digits_nat (nat (- v)))) \<longrightarrow>
            leading_group (format_currency u (PyNum (PyInt v))) = ustr ''-'')
       \<and> (4 \<le> length (digits_nat (nat (- v))) \<and> even (length (digits_nat (nat (- v)))) \<longrightarrow>
            leading_group (format_currency u (PyNum (PyInt v)))
              = ustr ''-'' @ [hd (digits_nat (nat (- v)))])
       \<and> format_currency u (PyNum (PyInt (- 1234))) = rupee @ ustr ''-1,234''
       \<and> format_currency u (PyNum (PyInt (- 12345))) = rupee @ ustr ''-,12,345''"
proof -
  let ?ds = "digits_nat (nat (- v))"
  have fc: "format_currency u (PyNum (PyInt v)) = format_int v"
    by (simp add: format_currency_def)
  have s: "py_str_int v = 45 # ?ds" using assms by (simp add: py_str_int_def)
  have ne: "?ds \<noteq> []" by (rule digits_nat_nonempty)
  have small: "format_int v = rupee @ 45 # ?ds" if "length ?ds \<le> 2"
    using that by (simp add: format_int_small s)
  have large: "\<exists>t. format_int v = rupee @ take (if even (length ?ds) then 2 else 1) (45 # ?ds) @ 44 # t"
    if "3 \<le> length ?ds"
    using assms that by (rule format_int_negative_large)
  have 1: "take 3 (format_int v) = rupee @ [45]"
  proof (cases "length ?ds \<le> 2")
    case True
    then show ?thesis by (simp add: small rupee_def)
  next
    case False
    then obtain t where "format_int v = rupee @ take (if even (length ?ds) then 2 else 1) (45 # ?ds) @ 44 # t"
      using large by auto
    then show ?thesis by (simp add: rupee_def)
  qed
  have 3: "leading_group (format_int v) = [45]" if "3 \<le> length ?ds" "odd (length ?ds)"
  proof -
    from that obtain t where "format_int v = rupee @ [45] @ 44 # t"
      using large by auto
    then show ?thesis by (simp add: leading_group_def rupee_def)
  qed
  have 4: "leading_group (format_int v) = [45, hd ?ds]" if "4 \<le> length ?ds" "even (length ?ds)"
  proof -
    from that obtain t where "format_int v = rupee @ take 2 (45 # ?ds) @ 44 # t"
      using large by auto
    moreover have "take 2 (45 # ?ds) = [45, hd ?ds]"
      using ne by (cases ?ds) simp_all
    ultimately show ?thesis
      by (simp add: leading_group_def rupee_def hd_digits_nat_not_comma)
  qed
  have 5: "format_currency u (PyNum (PyInt (- 1234))) = rupee @ ustr ''-1,234''"
    by (simp add: fmt_eval)
  have 6: "format_currency u (PyNum (PyInt (- 12345))) = rupee @ ustr ''-,12,345''"
    by (simp add: fmt_eval)
  from 1 small 3 4 5 6 show ?thesis by (simp add: fc ustr_def)
qed

theorem negative_sign_placement_witness:
  "(- 1234567 :: int) < 0
   \<and> leading_group (format_currency latin1 (PyNum (PyInt (- 1234567)))) = ustr ''-''
   \<and> (- 123456 :: int) < 0
   \<and> leading_group (format_currency latin1 (PyNum (PyInt (- 123456)))) = ustr ''-1''
   \<and> (- 12 :: int) < 0
   \<and> format_currency latin1 (PyNum (PyInt (- 12))) = rupee @ ustr ''-12''"
proof -
  have a: "(- 1234567 :: int) < 0" and b: "(- 123456 :: int) < 0" and c: "(- 12 :: int) < 0"
    by simp_all
  have da: "digits_nat (nat (- (- 1234567))) = ustr ''1234567''"
   and db: "digits_nat (nat (- (- 123456))) = ustr ''123456''"
   and dc: "digits_nat (nat (- (- 12))) = ustr ''12''"
    by (simp_all add: digits_nat.simps ustr_def)
  from negative_sign_placement [OF a, of latin1] da
  have 1: "leading_group (format_currency latin1 (PyNum (PyInt (- 1234567)))) = ustr ''-''"
    by (simp add: ustr_def)
  from negative_sign_placement [OF b, of latin1] db
  have 2: "leading_group (format_currency latin1 (PyNum (PyInt (- 123456)))) = ustr ''-1''"
    by (simp add: ustr_def)
  from negative_sign_placement [OF c, of latin1] dc
  have 3: "format_currency latin1 (PyNum (PyInt (- 12))) = rupee @ ustr ''-12''"
    by (simp add: ustr_def)
  from a b c 1 2 3 show ?thesis by simp
qed

end
